theory Spec2Isabelle
  imports Main
begin

section \<open>Constants of the worker (service-worker.js, lines 1-21)\<close>

definition CACHE_NAME :: string where
  "CACHE_NAME = ''logo-package-generator-v1.0.0''"

definition STATIC_CACHE :: string where
  "STATIC_CACHE = ''static-v1''"

definition DYNAMIC_CACHE :: string where
  "DYNAMIC_CACHE = ''dynamic-v1''"

definition STATIC_ASSETS :: "string list" where
  "STATIC_ASSETS =
    [''/'',
     ''/index.html'',
     ''/manifest.json'',
     ''https://i.postimg.cc/dtq83xGm/logo-512x512.png'',
     ''https://cdnjs.cloudflare.com/ajax/libs/font-awesome/6.4.0/css/all.min.css'',
     ''https://cdnjs.cloudflare.com/ajax/libs/jszip/3.10.1/jszip.min.js'',
     ''https://cdnjs.cloudflare.com/ajax/libs/FileSaver.js/2.0.5/FileSaver.min.js'']"

definition EXTERNAL_RESOURCES :: "string list" where
  "EXTERNAL_RESOURCES =
    [''https://fonts.googleapis.com/css2?family=Segoe+UI:wght@300;400;500;600;700&display=swap'',
     ''https://cdnjs.cloudflare.com/ajax/libs/font-awesome/6.4.0/webfonts/fa-solid-900.woff2'',
     ''https://cdnjs.cloudflare.com/ajax/libs/font-awesome/6.4.0/webfonts/fa-regular-400.woff2'']"

section \<open>The platform the worker runs on\<close>

text \<open>
  The worker is a set of event handlers over the browser's service-worker platform.
  The handlers are asynchronous promise chains; each is modelled by the sequential
  run of its chain, with explicit state passing. A settled promise is a value:
  fulfilled with a result or rejected with a reason.
\<close>

datatype 'a promise = Fulfilled 'a | Rejected string

text \<open>
  A response carries the fields the worker reads: \<open>status\<close>, \<open>type\<close> and the
  \<open>etag\<close> header (\<open>headers.get('etag')\<close> is \<open>null\<close> when the header is absent,
  here \<open>None\<close>). A request carries its method (\<open>http_method\<close>) and \<open>url\<close>.
\<close>

record response =
  status :: nat
  type :: string
  etag :: "string option"
  body :: string

record request =
  http_method :: string
  url :: string

text \<open>
  \<open>CacheStorage\<close>: named caches in creation order, each a map from a request's URL
  string to the stored response. A request is identified by the URL string the code
  passes; the platform's resolution of the origin-relative entries of the asset list
  against the worker's location is not modelled.
\<close>

type_synonym cache = "string \<rightharpoonup> response"
type_synonym cache_storage = "(string \<times> cache) list"

datatype level = LOG | WARN | ERROR

datatype core_message = ASSETS_UPDATED "string list"

record version_reply =
  version :: string
  cacheName :: string

text \<open>
  What the worker cannot decide: the outcome of \<open>fetch\<close> for a URL (one outcome
  per URL while one handler runs), whether a
  \<open>cache.put\<close> into a named cache or a \<open>caches.delete\<close> rejects, the worker's own
  origin, the origin the URL parser gives a URL (\<open>new URL(u).origin\<close>), and the clients
  \<open>self.clients.matchAll()\<close> returns. The store's reads (\<open>open\<close>, \<open>keys\<close>,
  \<open>match\<close>) are taken to succeed.
\<close>

record host =
  net :: "string \<Rightarrow> response promise"
  put_rejects :: "string \<Rightarrow> string \<Rightarrow> bool"
  delete_rejects :: "string \<Rightarrow> bool"
  location_origin :: string
  url_origin :: "string \<Rightarrow> string"
  matchAll :: "nat list"

text \<open>
  What the worker changes or emits: the cache storage, the console, the network
  requests issued (in order), whether \<open>self.skipWaiting()\<close> and
  \<open>self.clients.claim()\<close> were called, and the messages posted to clients and to
  reply ports.
\<close>

record world =
  caches :: cache_storage
  console :: "(level \<times> string) list"
  fetched :: "string list"
  skipWaiting :: bool
  claimed :: bool
  client_posts :: "(nat \<times> core_message) list"
  port_posts :: "(nat \<times> version_reply) list"

definition console_log :: "world \<Rightarrow> level \<Rightarrow> string \<Rightarrow> world" where
  "console_log w l s = w\<lparr>console := console w @ [(l, s)]\<rparr>"

definition fetch :: "host \<Rightarrow> world \<Rightarrow> string \<Rightarrow> response promise \<times> world" where
  "fetch h w u = (net h u, w\<lparr>fetched := fetched w @ [u]\<rparr>)"

subsection \<open>The cache storage\<close>

definition lookup :: "cache_storage \<Rightarrow> string \<Rightarrow> string \<Rightarrow> response option" where
  "lookup cs n k = (case map_of cs n of None \<Rightarrow> None | Some c \<Rightarrow> c k)"

text \<open>\<open>caches.open(name)\<close> creates the cache when it is absent.\<close>

definition caches_open :: "cache_storage \<Rightarrow> string \<Rightarrow> cache_storage" where
  "caches_open cs n = (if n \<in> set (map fst cs) then cs else cs @ [(n, Map.empty)])"

definition cache_put :: "cache_storage \<Rightarrow> string \<Rightarrow> string \<Rightarrow> response \<Rightarrow> cache_storage" where
  "cache_put cs n k r = map (\<lambda>(m, c). if m = n then (m, c(k \<mapsto> r)) else (m, c)) cs"

definition caches_delete :: "cache_storage \<Rightarrow> string \<Rightarrow> cache_storage" where
  "caches_delete cs n = filter (\<lambda>(m, c). m \<noteq> n) cs"

text \<open>\<open>caches.match(request)\<close> searches the caches in creation order; the first match wins.\<close>

fun caches_match :: "cache_storage \<Rightarrow> string \<Rightarrow> response option" where
  "caches_match [] k = None"
| "caches_match ((n, c) # cs) k = (case c k of Some r \<Rightarrow> Some r | None \<Rightarrow> caches_match cs k)"

text \<open>
  \<open>cache.addAll(urls)\<close> fetches every URL and stores all the responses or none: it
  rejects when a fetch rejects, a response's status is outside 200..299, or a store
  fails.
\<close>

definition addAll_ok :: "host \<Rightarrow> string \<Rightarrow> string list \<Rightarrow> bool" where
  "addAll_ok h n us =
     list_all (\<lambda>u. (case net h u of
                       Fulfilled r \<Rightarrow> 200 \<le> status r \<and> status r \<le> 299 \<and> \<not> put_rejects h n u
                     | Rejected e \<Rightarrow> False)) us"

fun put_fetched :: "host \<Rightarrow> string \<Rightarrow> string list \<Rightarrow> cache_storage \<Rightarrow> cache_storage" where
  "put_fetched h n [] cs = cs"
| "put_fetched h n (u # us) cs =
     put_fetched h n us (case net h u of Fulfilled r \<Rightarrow> cache_put cs n u r | Rejected e \<Rightarrow> cs)"

definition cache_addAll :: "host \<Rightarrow> world \<Rightarrow> string \<Rightarrow> string list \<Rightarrow> unit promise \<times> world" where
  "cache_addAll h w n us =
     (let w1 = w\<lparr>fetched := fetched w @ us\<rparr>
      in if addAll_ok h n us
         then (Fulfilled (), w1\<lparr>caches := put_fetched h n us (caches w1)\<rparr>)
         else (Rejected ''TypeError'', w1))"

text \<open>\<open>Promise.all\<close>: fulfilled when every promise is, rejected when one is.\<close>

fun promise_all :: "'a promise list \<Rightarrow> 'a list promise" where
  "promise_all [] = Fulfilled []"
| "promise_all (Fulfilled x # ps) =
     (case promise_all ps of Fulfilled xs \<Rightarrow> Fulfilled (x # xs) | Rejected e \<Rightarrow> Rejected e)"
| "promise_all (Rejected e # ps) = Rejected e"

text \<open>\<open>String.prototype.startsWith\<close> and \<open>String.prototype.includes\<close>.\<close>

fun startsWith :: "string \<Rightarrow> string \<Rightarrow> bool" where
  "startsWith s [] = True"
| "startsWith [] (c # cs) = False"
| "startsWith (x # xs) (c # cs) = (x = c \<and> startsWith xs cs)"

fun str_includes :: "string \<Rightarrow> string \<Rightarrow> bool" where
  "str_includes [] t = (t = [])"
| "str_includes (x # xs) t = (startsWith (x # xs) t \<or> str_includes xs t)"

text \<open>
  The platform's install step, from the promise the handler gave \<open>event.waitUntil\<close>:
  a rejected promise makes the installing worker redundant (the failed state); a
  fulfilled one makes it installed, waiting to be activated.
\<close>

datatype lifecycle = INSTALLED | FAILED

definition install_result :: "unit promise \<Rightarrow> lifecycle" where
  "install_result p = (case p of Fulfilled u \<Rightarrow> INSTALLED | Rejected e \<Rightarrow> FAILED)"

section \<open>The install handler (lines 24-41)\<close>

text \<open>The value is the state of the promise passed to \<open>event.waitUntil\<close>.\<close>

definition on_install :: "host \<Rightarrow> world \<Rightarrow> unit promise \<times> world" where
  "on_install h w =
     (let w1 = console_log w LOG ''Service Worker: Installing...'';
          w2 = w1\<lparr>caches := caches_open (caches w1) STATIC_CACHE\<rparr>;
          w3 = console_log w2 LOG ''Service Worker: Caching static assets''
      in case cache_addAll h w3 STATIC_CACHE (STATIC_ASSETS @ EXTERNAL_RESOURCES) of
           (Fulfilled u, w4) \<Rightarrow>
             (Fulfilled (),
              (console_log w4 LOG ''Service Worker: Install completed'')\<lparr>skipWaiting := True\<rparr>)
         | (Rejected e, w4) \<Rightarrow>
             (Fulfilled (), console_log w4 ERROR ''Service Worker: Installation failed''))"

section \<open>The activate handler (lines 44-64)\<close>

text \<open>
  The callback of \<open>cacheNames.map\<close> runs for every name before any delete settles;
  it gives the promise of \<open>caches.delete\<close> for a name that is not current, and
  \<open>undefined\<close> (which \<open>Promise.all\<close> takes as fulfilled) for a current one.
\<close>

fun delete_old :: "host \<Rightarrow> string list \<Rightarrow> world \<Rightarrow> unit promise list \<times> world" where
  "delete_old h [] w = ([], w)"
| "delete_old h (n # ns) w =
     (if n \<noteq> STATIC_CACHE \<and> n \<noteq> DYNAMIC_CACHE
      then (let w1 = console_log w LOG (''Service Worker: Deleting old cache '' @ n)
            in if delete_rejects h n
               then (case delete_old h ns w1 of (ps, w2) \<Rightarrow> (Rejected ''delete'' # ps, w2))
               else (case delete_old h ns (w1\<lparr>caches := caches_delete (caches w1) n\<rparr>) of
                       (ps, w2) \<Rightarrow> (Fulfilled () # ps, w2)))
      else (case delete_old h ns w of (ps, w2) \<Rightarrow> (Fulfilled () # ps, w2)))"

definition on_activate :: "host \<Rightarrow> world \<Rightarrow> unit promise \<times> world" where
  "on_activate h w =
     (let w1 = console_log w LOG ''Service Worker: Activating...''
      in case delete_old h (map fst (caches w1)) w1 of
           (ps, w2) \<Rightarrow>
             (case promise_all ps of
                Fulfilled us \<Rightarrow>
                  (Fulfilled (),
                   (console_log w2 LOG ''Service Worker: Activate completed'')\<lparr>claimed := True\<rparr>)
              | Rejected e \<Rightarrow> (Rejected e, w2)))"

section \<open>The fetch handler (lines 67-129)\<close>

text \<open>
  The handler either returns without \<open>event.respondWith\<close> (the request passes
  through untouched) or responds with a promise; the value holds the promise's
  settled state. \<open>fetch\<close> never fulfils with \<open>null\<close>, so the test
  \<open>!networkResponse\<close> of line 93 is always false and has no branch here.
\<close>

datatype fetch_outcome = PassThrough | RespondWith "response promise"

definition isCacheable :: "host \<Rightarrow> request \<Rightarrow> bool" where
  "isCacheable h req =
     (url_origin h (url req) = location_origin h \<or>
      url req \<in> set EXTERNAL_RESOURCES \<or>
      url req \<in> set STATIC_ASSETS)"

text \<open>
  Lines 101-116. The promise of \<open>cache.put\<close> is not returned from the callback, so a
  rejected put stores nothing and is seen by nobody.
\<close>

definition cache_response :: "host \<Rightarrow> world \<Rightarrow> request \<Rightarrow> response \<Rightarrow> world" where
  "cache_response h w req responseToCache =
     (let w1 = w\<lparr>caches := caches_open (caches w) DYNAMIC_CACHE\<rparr>
      in if isCacheable h req
         then (if put_rejects h DYNAMIC_CACHE (url req) then w1
               else w1\<lparr>caches := cache_put (caches w1) DYNAMIC_CACHE (url req) responseToCache\<rparr>)
         else w1)"

definition on_fetch :: "host \<Rightarrow> world \<Rightarrow> request \<Rightarrow> fetch_outcome \<times> world" where
  "on_fetch h w req =
     (if http_method req \<noteq> ''GET'' \<or>
         startsWith (url req) ''chrome-extension://'' \<or>
         str_includes (url req) ''extension''
      then (PassThrough, w)
      else if str_includes (url req) ''api.openai.com''
      then (case fetch h w (url req) of (p, w1) \<Rightarrow> (RespondWith p, w1))
      else (case caches_match (caches w) (url req) of
              Some cachedResponse \<Rightarrow> (RespondWith (Fulfilled cachedResponse), w)
            | None \<Rightarrow>
                (case fetch h w (url req) of
                   (Fulfilled networkResponse, w1) \<Rightarrow>
                     if status networkResponse \<noteq> 200 \<or> type networkResponse \<noteq> ''basic''
                     then (RespondWith (Fulfilled networkResponse), w1)
                     else (RespondWith (Fulfilled networkResponse),
                           cache_response h w1 req networkResponse)
                 | (Rejected e, w1) \<Rightarrow>
                     (RespondWith (Rejected e),
                      console_log w1 WARN ''Service Worker: Fetch failed''))))"

section \<open>The update check (lines 217-252)\<close>

text \<open>
  One turn of the loop over \<open>STATIC_ASSETS\<close>, on the world and the list
  \<open>updatedAssets\<close>. A rejected fetch or put is caught inside the loop and logged.
\<close>

definition update_asset :: "host \<Rightarrow> string \<Rightarrow> world \<times> string list \<Rightarrow> world \<times> string list" where
  "update_asset h asset s =
     (case s of (w, updatedAssets) \<Rightarrow>
        (case fetch h w asset of
           (Rejected e, w1) \<Rightarrow>
             (console_log w1 WARN (''Service Worker: Failed to update '' @ asset), updatedAssets)
         | (Fulfilled networkResponse, w1) \<Rightarrow>
             if (case lookup (caches w1) STATIC_CACHE asset of
                   None \<Rightarrow> True
                 | Some cachedResponse \<Rightarrow> etag networkResponse \<noteq> etag cachedResponse)
             then (if put_rejects h STATIC_CACHE asset
                   then (console_log w1 WARN (''Service Worker: Failed to update '' @ asset),
                         updatedAssets)
                   else (w1\<lparr>caches := cache_put (caches w1) STATIC_CACHE asset networkResponse\<rparr>,
                         updatedAssets @ [asset]))
             else (w1, updatedAssets)))"

fun update_loop :: "host \<Rightarrow> string list \<Rightarrow> world \<times> string list \<Rightarrow> world \<times> string list" where
  "update_loop h [] s = s"
| "update_loop h (asset # assets) s = update_loop h assets (update_asset h asset s)"

definition checkForUpdates :: "host \<Rightarrow> world \<Rightarrow> world" where
  "checkForUpdates h w =
     (case update_loop h STATIC_ASSETS (w\<lparr>caches := caches_open (caches w) STATIC_CACHE\<rparr>, []) of
        (w1, updatedAssets) \<Rightarrow>
          if length updatedAssets > 0
          then (console_log w1 LOG ''Service Worker: Updated assets'')
                 \<lparr>client_posts := client_posts w1 @
                    map (\<lambda>client. (client, ASSETS_UPDATED updatedAssets)) (matchAll h)\<rparr>
          else w1)"

section \<open>The message handler (lines 255-268)\<close>

text \<open>
  \<open>data_type\<close> is \<open>event.data.type\<close> (\<open>None\<close> when \<open>event.data\<close> is missing or has
  no type); \<open>ports\<close> is \<open>event.ports\<close>. Reading \<open>event.ports[0].postMessage\<close> with no
  port throws; the first component is the uncaught error, if any.
\<close>

record message_event =
  data_type :: "string option"
  ports :: "nat list"

definition on_message :: "world \<Rightarrow> message_event \<Rightarrow> string option \<times> world" where
  "on_message w ev =
     (let w1 = console_log w LOG ''Service Worker: Message received'';
          w2 = (if data_type ev = Some ''SKIP_WAITING'' then w1\<lparr>skipWaiting := True\<rparr> else w1)
      in if data_type ev = Some ''GET_VERSION''
         then (case ports ev of
                 [] \<Rightarrow> (Some ''TypeError'', w2)
               | p # ps \<Rightarrow>
                   (None, w2\<lparr>port_posts := port_posts w2 @
                              [(p, \<lparr>version = ''1.0.0'', cacheName = CACHE_NAME\<rparr>)]\<rparr>))
         else (None, w2))"

section \<open>Notions the properties are stated with\<close>

text \<open>
  The request reaches the cache-first path of the fetch handler: the guards of lines
  69-79 neither let it pass through nor send it to the network-only branch.
\<close>

definition cache_first :: "request \<Rightarrow> bool" where
  "cache_first req =
     (http_method req = ''GET'' \<and>
      \<not> startsWith (url req) ''chrome-extension://'' \<and>
      \<not> str_includes (url req) ''extension'' \<and>
      \<not> str_includes (url req) ''api.openai.com'')"

text \<open>
  The platform's rule for response types, at one URL: a fulfilled response of type
  \<open>basic\<close> comes from a URL of the worker's own origin.
\<close>

definition basic_same_origin :: "host \<Rightarrow> string \<Rightarrow> bool" where
  "basic_same_origin h u =
     (case net h u of
        Fulfilled r \<Rightarrow> (if type r = ''basic'' then url_origin h u = location_origin h else True)
      | Rejected e \<Rightarrow> True)"

definition net_response :: "host \<Rightarrow> string \<Rightarrow> response option" where
  "net_response h u = (case net h u of Fulfilled r \<Rightarrow> Some r | Rejected e \<Rightarrow> None)"

text \<open>
  The test of lines 227-228 on an asset whose cached copy is \<open>cached\<close>, together with
  the success of the fetch before it and of the put after it.
\<close>

definition refreshes :: "host \<Rightarrow> response option \<Rightarrow> string \<Rightarrow> bool" where
  "refreshes h cached a =
     (case net h a of
        Rejected e \<Rightarrow> False
      | Fulfilled r \<Rightarrow>
          (case cached of None \<Rightarrow> True | Some c \<Rightarrow> etag r \<noteq> etag c) \<and>
          \<not> put_rejects h STATIC_CACHE a)"

text \<open>The list \<open>updatedAssets\<close> of \<open>checkForUpdates\<close> when its loop ends.\<close>

definition updatedAssets :: "host \<Rightarrow> world \<Rightarrow> string list" where
  "updatedAssets h w =
     snd (update_loop h STATIC_ASSETS (w\<lparr>caches := caches_open (caches w) STATIC_CACHE\<rparr>, []))"

text \<open>The assets whose entry of the static cache differs after the update check.\<close>

definition overwritten :: "host \<Rightarrow> world \<Rightarrow> string list" where
  "overwritten h w =
     filter (\<lambda>a. lookup (caches (checkForUpdates h w)) STATIC_CACHE a \<noteq>
                 lookup (caches w) STATIC_CACHE a) STATIC_ASSETS"

text \<open>
  The comparator in the specification's words (section 3, FreshnessToken): two
  responses are equivalent iff their tokens are equal or both absent. It is compared
  below with the code's test \<open>etag r \<noteq> etag c\<close>.
\<close>

definition spec_equivalent :: "response \<Rightarrow> response \<Rightarrow> bool" where
  "spec_equivalent a b =
     (case (etag a, etag b) of
        (None, None) \<Rightarrow> True
      | (Some s, Some t) \<Rightarrow> s = t
      | (None, Some t) \<Rightarrow> False
      | (Some s, None) \<Rightarrow> False)"

text \<open>A cache name the activate handler deletes, and whether one of its deletes rejects.\<close>

definition superseded :: "string \<Rightarrow> bool" where
  "superseded n = (n \<noteq> STATIC_CACHE \<and> n \<noteq> DYNAMIC_CACHE)"

definition delete_failed :: "host \<Rightarrow> world \<Rightarrow> bool" where
  "delete_failed h w = list_ex (\<lambda>n. superseded n \<and> delete_rejects h n) (map fst (caches w))"

section \<open>Concrete hosts, worlds and requests\<close>

definition app_origin :: string where
  "app_origin = ''https://logogen.example''"

definition origin_by_prefix :: "string \<Rightarrow> string" where
  "origin_by_prefix u =
     (if startsWith u ''https://logogen.example/'' then ''https://logogen.example''
      else ''https://cdnjs.cloudflare.com'')"

definition never :: "string \<Rightarrow> bool" where
  "never n = False"

definition only :: "string \<Rightarrow> string \<Rightarrow> bool" where
  "only m n = (n = m)"

definition example_host :: "(string \<Rightarrow> response promise) \<Rightarrow> (string \<Rightarrow> bool) \<Rightarrow> host" where
  "example_host f d =
     \<lparr>net = f, put_rejects = (\<lambda>n k. False), delete_rejects = d,
      location_origin = app_origin, url_origin = origin_by_prefix, matchAll = [1, 2]\<rparr>"

definition world_with :: "cache_storage \<Rightarrow> world" where
  "world_with cs =
     \<lparr>caches = cs, console = [], fetched = [], skipWaiting = False, claimed = False,
      client_posts = [], port_posts = []\<rparr>"

definition tagged :: "string \<Rightarrow> response" where
  "tagged t = \<lparr>status = 200, type = ''basic'', etag = Some t, body = ''content '' @ t\<rparr>"

definition untagged :: "string \<Rightarrow> response" where
  "untagged b = \<lparr>status = 200, type = ''basic'', etag = None, body = b\<rparr>"

definition opaque_image :: response where
  "opaque_image = \<lparr>status = 0, type = ''opaque'', etag = None, body = []\<rparr>"

definition cors_font :: response where
  "cors_font = \<lparr>status = 200, type = ''cors'', etag = Some ''f1'', body = ''woff2''\<rparr>"

definition serves :: "response \<Rightarrow> string \<Rightarrow> response promise" where
  "serves r u = Fulfilled r"

definition index_unreachable :: "string \<Rightarrow> response promise" where
  "index_unreachable u =
     (if u = ''/index.html'' then Rejected ''offline'' else Fulfilled (tagged ''v1''))"

definition index_changed :: "string \<Rightarrow> response promise" where
  "index_changed u =
     (if u = ''/index.html'' then Fulfilled (tagged ''v2'') else Fulfilled (tagged ''v1''))"

definition root_untagged :: "string \<Rightarrow> response promise" where
  "root_untagged u = (if u = ''/'' then Fulfilled (untagged ''new'') else Rejected ''offline'')"

definition precached :: cache_storage where
  "precached =
     [(STATIC_CACHE,
       (\<lambda>k. if k \<in> set (STATIC_ASSETS @ EXTERNAL_RESOURCES) then Some (tagged ''v1'') else None)),
      (DYNAMIC_CACHE, [''https://logogen.example/app.js'' \<mapsto> tagged ''a1''])]"

definition root_cached :: "response \<Rightarrow> cache_storage" where
  "root_cached r = [(STATIC_CACHE, [''/'' \<mapsto> r])]"

definition superseded_caches :: cache_storage where
  "superseded_caches =
     [(''static-v0'', Map.empty), (STATIC_CACHE, Map.empty), (''dynamic-v0'', Map.empty)]"

definition font_request :: request where
  "font_request =
     \<lparr>http_method = ''GET'',
      url = ''https://cdnjs.cloudflare.com/ajax/libs/font-awesome/6.4.0/webfonts/fa-solid-900.woff2''\<rparr>"

definition script_request :: request where
  "script_request = \<lparr>http_method = ''GET'', url = ''https://logogen.example/app.js''\<rparr>"

definition style_request :: request where
  "style_request = \<lparr>http_method = ''GET'', url = ''https://logogen.example/style.css''\<rparr>"

definition image_request :: request where
  "image_request = \<lparr>http_method = ''GET'', url = ''https://i.postimg.cc/abc/banner.png''\<rparr>"

section \<open>Facts about the cache storage\<close>

lemma lookup_caches_open: "lookup (caches_open cs n) m k = lookup cs m k"
proof (cases "n \<in> set (map fst cs)")
  case True
  then show ?thesis by (simp add: caches_open_def)
next
  case False
  then have "map_of cs n = None" by (simp add: map_of_eq_None_iff)
  then show ?thesis using False
    by (cases "map_of cs m") (auto simp: lookup_def caches_open_def map_add_def)
qed

lemma map_of_cache_put:
  "map_of (cache_put cs n k r) m =
     (if m = n then map_option (\<lambda>c. c(k \<mapsto> r)) (map_of cs m) else map_of cs m)"
  unfolding cache_put_def by (induction cs) (auto simp: fun_upd_def)

lemma lookup_cache_put:
  "lookup (cache_put cs n k r) m j =
     (if m = n \<and> j = k \<and> n \<in> set (map fst cs) then Some r else lookup cs m j)"
proof (cases "map_of cs n")
  case None
  then have "n \<notin> set (map fst cs)" by (simp add: map_of_eq_None_iff)
  with None show ?thesis by (simp add: lookup_def map_of_cache_put)
next
  case (Some c)
  then have "n \<in> set (map fst cs)" by (metis map_of_eq_None_iff option.distinct(1) set_map)
  with Some show ?thesis by (simp add: lookup_def map_of_cache_put)
qed

lemma names_cache_put: "map fst (cache_put cs n k r) = map fst cs"
  by (induction cs) (auto simp: cache_put_def)

lemma names_caches_open: "n \<in> fst ` set (caches_open cs n)"
  by (simp add: caches_open_def)

lemma caches_match_None_lookup: "caches_match cs k = None \<Longrightarrow> lookup cs n k = None"
  by (induction cs k rule: caches_match.induct) (auto simp: lookup_def split: option.splits if_splits)

section \<open>The message handler: the version reply\<close>

text \<open>
  C8. For every GET_VERSION message that carries a reply port, whatever the world (and
  so whatever the caches hold), the handler posts exactly
  \<open>{version: "1.0.0", cacheName: "logo-package-generator-v1.0.0"}\<close> to the first
  port, raises nothing, and changes nothing but the console and that port.
\<close>

theorem get_version_reply:
  assumes "data_type ev = Some ''GET_VERSION''" and "ports ev = p # ps"
  shows "on_message w ev =
     (None, (console_log w LOG ''Service Worker: Message received'')
        \<lparr>port_posts := port_posts w @
           [(p, \<lparr>version = ''1.0.0'', cacheName = ''logo-package-generator-v1.0.0''\<rparr>)]\<rparr>)"
  using assms by (simp add: on_message_def CACHE_NAME_def console_log_def)

theorem get_version_reply_witness:
  "port_posts (snd (on_message (world_with precached)
       \<lparr>data_type = Some ''GET_VERSION'', ports = [7]\<rparr>)) =
     [(7, \<lparr>version = ''1.0.0'', cacheName = ''logo-package-generator-v1.0.0''\<rparr>)] \<and>
   port_posts (snd (on_message (world_with [])
       \<lparr>data_type = Some ''GET_VERSION'', ports = [7]\<rparr>)) =
     [(7, \<lparr>version = ''1.0.0'', cacheName = ''logo-package-generator-v1.0.0''\<rparr>)]"
  using get_version_reply[of "\<lparr>data_type = Some ''GET_VERSION'', ports = [7]\<rparr>" 7 "[]"
      "world_with precached"]
    get_version_reply[of "\<lparr>data_type = Some ''GET_VERSION'', ports = [7]\<rparr>" 7 "[]"
      "world_with []"]
  by (simp add: world_with_def console_log_def)

section \<open>The fetch handler\<close>

subsection \<open>A cache hit\<close>

text \<open>
  C4. For every request on the cache-first path whose URL matches a cached entry, the
  handler responds with the cached response and leaves the world as it was: no network
  request is issued (the list of fetched URLs is unchanged), nothing is stored, and
  no token of the entry is looked at.
\<close>

theorem cache_hit_no_network:
  assumes "cache_first req" and "caches_match (caches w) (url req) = Some cached"
  shows "on_fetch h w req = (RespondWith (Fulfilled cached), w) \<and>
         fetched (snd (on_fetch h w req)) = fetched w"
  using assms by (simp add: on_fetch_def cache_first_def)

theorem cache_hit_no_network_witness:
  "cache_first script_request \<and>
   caches_match (caches (world_with precached)) (url script_request) = Some (tagged ''a1'') \<and>
   on_fetch (example_host index_unreachable never) (world_with precached) script_request =
     (RespondWith (Fulfilled (tagged ''a1'')), world_with precached) \<and>
   fetched (snd (on_fetch (example_host index_unreachable never) (world_with precached)
     script_request)) = []"
proof -
  have a: "cache_first script_request"
    by (simp add: cache_first_def script_request_def)
  have b: "caches_match (caches (world_with precached)) (url script_request) = Some (tagged ''a1'')"
    by (simp add: world_with_def precached_def script_request_def
        STATIC_CACHE_def DYNAMIC_CACHE_def STATIC_ASSETS_def EXTERNAL_RESOURCES_def)
  show ?thesis
    using a b cache_hit_no_network[OF a b, of "example_host index_unreachable never"]
    by (simp add: world_with_def)
qed

subsection \<open>A response that is not cached\<close>

text \<open>
  C5. For every cache miss on the cache-first path whose network response has a status
  other than 200 or a type other than \<open>basic\<close> (an opaque cross-origin response has
  type \<open>opaque\<close> and status 0, so it is one of them, as is every response whose status
  is outside 200..299), the handler responds with that response itself and the cache
  storage is unchanged: no entry for the request exists in the dynamic cache afterwards.
\<close>

theorem invalid_response_not_cached:
  assumes "cache_first req" and "caches_match (caches w) (url req) = None"
    and "net h (url req) = Fulfilled r"
    and "status r \<noteq> 200 \<or> type r \<noteq> ''basic''"
  shows "fst (on_fetch h w req) = RespondWith (Fulfilled r) \<and>
         caches (snd (on_fetch h w req)) = caches w \<and>
         lookup (caches (snd (on_fetch h w req))) DYNAMIC_CACHE (url req) = None"
  using assms caches_match_None_lookup[of "caches w" "url req" DYNAMIC_CACHE]
  by (auto simp: on_fetch_def cache_first_def fetch_def)

theorem invalid_response_not_cached_witness:
  "cache_first image_request \<and>
   caches_match (caches (world_with precached)) (url image_request) = None \<and>
   type opaque_image = ''opaque'' \<and>
   fst (on_fetch (example_host (serves opaque_image) never) (world_with precached) image_request) =
     RespondWith (Fulfilled opaque_image) \<and>
   lookup (caches (snd (on_fetch (example_host (serves opaque_image) never)
      (world_with precached) image_request))) DYNAMIC_CACHE (url image_request) = None"
proof -
  have a: "cache_first image_request"
    by (simp add: cache_first_def image_request_def)
  have b: "caches_match (caches (world_with precached)) (url image_request) = None"
    by (simp add: world_with_def precached_def image_request_def
        STATIC_CACHE_def DYNAMIC_CACHE_def STATIC_ASSETS_def EXTERNAL_RESOURCES_def)
  have c: "net (example_host (serves opaque_image) never) (url image_request) = Fulfilled opaque_image"
    by (simp add: example_host_def serves_def)
  have d: "status opaque_image \<noteq> 200 \<or> type opaque_image \<noteq> ''basic''"
    by (simp add: opaque_image_def)
  have e: "type opaque_image = ''opaque''"
    by (simp add: opaque_image_def)
  show ?thesis
    using a b e invalid_response_not_cached[OF a b c d] by blast
qed

subsection \<open>What the handler writes\<close>

text \<open>
  C9. Whenever the fetch handler changes an entry of the cache storage, the entry is
  the request's own URL in the dynamic cache, and the response stored is the network
  response, of status 200 and of type \<open>basic\<close>: the test of line 93 stands before the
  allow-list of lines 105-108. Where the platform gives type \<open>basic\<close> to same-origin
  responses only, the URL written has the worker's own origin, so the two URL clauses
  of the allow-list never admit a cross-origin response.
\<close>

theorem router_writes_only_basic:
  assumes "lookup (caches (snd (on_fetch h w req))) n k \<noteq> lookup (caches w) n k"
  shows "n = DYNAMIC_CACHE \<and> k = url req \<and>
         (\<exists>r. net h (url req) = Fulfilled r \<and> status r = 200 \<and> type r = ''basic'' \<and>
              lookup (caches (snd (on_fetch h w req))) n k = Some r) \<and>
         (basic_same_origin h (url req) \<longrightarrow> url_origin h k = location_origin h)"
  using assms
  by (auto simp: on_fetch_def fetch_def console_log_def cache_response_def Let_def
      lookup_caches_open lookup_cache_put basic_same_origin_def
      split: if_splits option.splits promise.splits)

theorem router_writes_only_basic_witness:
  "lookup (caches (snd (on_fetch (example_host (serves (tagged ''s1'')) never) (world_with [])
      style_request))) DYNAMIC_CACHE (url style_request) = Some (tagged ''s1'') \<and>
   basic_same_origin (example_host (serves (tagged ''s1'')) never) (url style_request) \<and>
   url_origin (example_host (serves (tagged ''s1'')) never) (url style_request) =
     location_origin (example_host (serves (tagged ''s1'')) never)"
proof -
  let ?h = "example_host (serves (tagged ''s1'')) never"
  have put: "lookup (caches (snd (on_fetch ?h (world_with []) style_request)))
      DYNAMIC_CACHE (url style_request) = Some (tagged ''s1'')"
    by (simp add: on_fetch_def fetch_def cache_response_def isCacheable_def caches_open_def
        cache_put_def lookup_def Let_def example_host_def serves_def tagged_def never_def
        world_with_def style_request_def app_origin_def origin_by_prefix_def
        DYNAMIC_CACHE_def)
  have before: "lookup (caches (world_with [])) DYNAMIC_CACHE (url style_request) = None"
    by (simp add: lookup_def world_with_def)
  have changed: "lookup (caches (snd (on_fetch ?h (world_with []) style_request)))
      DYNAMIC_CACHE (url style_request) \<noteq>
      lookup (caches (world_with [])) DYNAMIC_CACHE (url style_request)"
    using put before by simp
  have policy: "basic_same_origin ?h (url style_request)"
    by (simp add: basic_same_origin_def example_host_def serves_def tagged_def
        style_request_def app_origin_def origin_by_prefix_def)
  show ?thesis
    using put policy router_writes_only_basic[OF changed] by simp
qed

subsection \<open>An allowed third-party resource\<close>

text \<open>
  For a response of status 200 and type \<open>basic\<close> the allow-list decides: the response
  is stored under the request's URL iff \<open>isCacheable\<close> holds (the put not failing).
\<close>

lemma basic_response_store_rule:
  assumes "cache_first req" and "caches_match (caches w) (url req) = None"
    and "net h (url req) = Fulfilled r" and "status r = 200" and "type r = ''basic''"
    and "\<not> put_rejects h DYNAMIC_CACHE (url req)"
  shows "(lookup (caches (snd (on_fetch h w req))) DYNAMIC_CACHE (url req) = Some r) =
           isCacheable h req"
proof -
  have none: "lookup (caches w) DYNAMIC_CACHE (url req) = None"
    using assms(2) by (rule caches_match_None_lookup)
  have opened: "DYNAMIC_CACHE \<in> set (map fst (caches_open (caches w) DYNAMIC_CACHE))"
    using names_caches_open[of DYNAMIC_CACHE "caches w"] by simp
  show ?thesis
    using assms none opened
    by (simp add: on_fetch_def cache_first_def fetch_def cache_response_def Let_def
        lookup_caches_open lookup_cache_put)
qed

text \<open>
  C6 states that a cache miss with a valid (ok, non-opaque) response is stored in the
  dynamic cache iff the request is same-origin or its URL is in
  \<open>EXTERNAL_RESOURCES\<close> or in \<open>STATIC_ASSETS\<close>; the comment of line 103 says the
  same ("only cache same-origin resources and specific external resources"). The
  handler does not do so: a GET request for the second entry of \<open>EXTERNAL_RESOURCES\<close>,
  answered with status 200 and type \<open>cors\<close> (ok and not opaque), misses the cache,
  satisfies \<open>isCacheable\<close>, and is returned with nothing stored, since line 93 returns
  for every type other than \<open>basic\<close>.
\<close>

theorem allowed_font_not_cached:
  "cache_first font_request \<and>
   caches_match (caches (world_with [])) (url font_request) = None \<and>
   net (example_host (serves cors_font) never) (url font_request) = Fulfilled cors_font \<and>
   status cors_font = 200 \<and> type cors_font = ''cors'' \<and>
   url font_request \<in> set EXTERNAL_RESOURCES \<and>
   isCacheable (example_host (serves cors_font) never) font_request \<and>
   on_fetch (example_host (serves cors_font) never) (world_with []) font_request =
     (RespondWith (Fulfilled cors_font), (world_with [])\<lparr>fetched := [url font_request]\<rparr>)"
  by (simp add: on_fetch_def cache_first_def fetch_def isCacheable_def
      example_host_def serves_def cors_font_def never_def world_with_def font_request_def
      EXTERNAL_RESOURCES_def)

theorem allowed_font_not_cached_witness:
  "caches (snd (on_fetch (example_host (serves cors_font) never) (world_with []) font_request)) = []"
  using allowed_font_not_cached by (simp add: world_with_def)

section \<open>The install handler: a failed precache\<close>

lemma install_promise_fulfilled: "fst (on_install h w) = Fulfilled ()"
  by (simp add: on_install_def Let_def split: prod.splits promise.splits)

text \<open>
  C1 states that a failure to fetch or store one asset during install fails the whole
  phase and ends the lifecycle in the failed state. The handler stores nothing and
  does not call \<open>skipWaiting\<close>, and it logs "Installation failed"; but its
  \<open>catch\<close> (lines 37-39) does not rethrow, so the promise given to
  \<open>event.waitUntil\<close> is fulfilled and the platform takes the install as a success.
  Here \<open>/index.html\<close> cannot be fetched.
\<close>

theorem install_failure_swallowed:
  "''/index.html'' \<in> set STATIC_ASSETS \<and>
   net (example_host index_unreachable never) ''/index.html'' = Rejected ''offline'' \<and>
   fst (on_install (example_host index_unreachable never) (world_with [])) = Fulfilled () \<and>
   install_result (fst (on_install (example_host index_unreachable never) (world_with []))) =
     INSTALLED \<and>
   console (snd (on_install (example_host index_unreachable never) (world_with []))) =
     [(LOG, ''Service Worker: Installing...''),
      (LOG, ''Service Worker: Caching static assets''),
      (ERROR, ''Service Worker: Installation failed'')] \<and>
   skipWaiting (snd (on_install (example_host index_unreachable never) (world_with []))) = False \<and>
   lookup (caches (snd (on_install (example_host index_unreachable never) (world_with []))))
     STATIC_CACHE ''/'' = None"
  by (simp add: on_install_def cache_addAll_def addAll_ok_def install_result_def console_log_def
      caches_open_def lookup_def Let_def example_host_def index_unreachable_def never_def
      world_with_def tagged_def STATIC_CACHE_def STATIC_ASSETS_def EXTERNAL_RESOURCES_def)

theorem install_failure_swallowed_witness:
  "install_result (fst (on_install (example_host index_unreachable never) (world_with []))) \<noteq>
     FAILED"
  using install_failure_swallowed by (simp add: install_result_def)

section \<open>The activate handler: a delete that fails\<close>

lemma delete_old_caches:
  "caches (snd (delete_old h ns w)) =
     filter (\<lambda>e. \<not> (fst e \<in> set ns \<and> superseded (fst e) \<and> \<not> delete_rejects h (fst e)))
       (caches w)"
proof (induction ns arbitrary: w)
  case Nil
  then show ?case by simp
next
  case (Cons n ns)
  show ?case
  proof (cases "superseded n \<and> \<not> delete_rejects h n")
    case True
    let ?w1 = "console_log w LOG (''Service Worker: Deleting old cache '' @ n)"
    have "caches (snd (delete_old h (n # ns) w)) =
        caches (snd (delete_old h ns (?w1\<lparr>caches := caches_delete (caches ?w1) n\<rparr>)))"
      using True by (simp add: superseded_def Let_def case_prod_beta)
    also have "\<dots> =
        filter (\<lambda>e. \<not> (fst e \<in> set ns \<and> superseded (fst e) \<and> \<not> delete_rejects h (fst e)))
          (filter (\<lambda>e. fst e \<noteq> n) (caches w))"
      by (simp add: Cons.IH console_log_def caches_delete_def case_prod_beta)
    also have "\<dots> =
        filter (\<lambda>e. \<not> (fst e \<in> set (n # ns) \<and> superseded (fst e) \<and> \<not> delete_rejects h (fst e)))
          (caches w)"
      using True by (auto intro: filter_cong)
    finally show ?thesis .
  next
    case False
    have "caches (snd (delete_old h (n # ns) w)) =
        filter (\<lambda>e. \<not> (fst e \<in> set ns \<and> superseded (fst e) \<and> \<not> delete_rejects h (fst e)))
          (caches w)"
    proof (cases "superseded n")
      case True
      then show ?thesis using False
        by (simp add: superseded_def Let_def Cons.IH console_log_def case_prod_beta)
    next
      case False
      then show ?thesis
        by (auto simp: superseded_def Let_def Cons.IH case_prod_beta)
    qed
    also have "\<dots> =
        filter (\<lambda>e. \<not> (fst e \<in> set (n # ns) \<and> superseded (fst e) \<and> \<not> delete_rejects h (fst e)))
          (caches w)"
      using False by (auto intro: filter_cong)
    finally show ?thesis .
  qed
qed

lemma delete_old_console:
  "console (snd (delete_old h ns w)) =
     console w @ map (\<lambda>n. (LOG, ''Service Worker: Deleting old cache '' @ n)) (filter superseded ns)"
  by (induction ns arbitrary: w)
     (simp_all add: superseded_def Let_def console_log_def case_prod_beta)

lemma delete_old_claimed: "claimed (snd (delete_old h ns w)) = claimed w"
  by (induction ns arbitrary: w)
     (simp_all add: Let_def console_log_def case_prod_beta)

lemma delete_old_promises:
  "fst (delete_old h ns w) =
     map (\<lambda>n. if superseded n \<and> delete_rejects h n then Rejected ''delete'' else Fulfilled ()) ns"
  by (induction ns arbitrary: w) (simp_all add: superseded_def Let_def case_prod_beta)

lemma promise_all_Fulfilled:
  "(\<exists>xs. promise_all ps = Fulfilled xs) =
     list_all (\<lambda>p. case p of Fulfilled x \<Rightarrow> True | Rejected e \<Rightarrow> False) ps"
proof (induction ps)
  case Nil
  then show ?case by simp
next
  case (Cons p ps)
  then show ?case by (cases p; cases "promise_all ps") auto
qed

lemma delete_old_all:
  "(\<exists>us. promise_all (fst (delete_old h ns w)) = Fulfilled us) =
     (\<not> list_ex (\<lambda>n. superseded n \<and> delete_rejects h n) ns)"
  unfolding promise_all_Fulfilled delete_old_promises
  by (induction ns) auto

text \<open>
  C3, as the handler has it. A delete is tried for every cache whose name is neither
  \<open>static-v1\<close> nor \<open>dynamic-v1\<close>, whatever becomes of the other deletes, and every
  cache whose delete succeeds is gone afterwards. The handler calls
  \<open>clients.claim()\<close> and its promise is fulfilled exactly when no delete fails. A
  failed delete is not logged: the console gets the line "Activating...", one line
  "Deleting old cache" per delete tried, and "Activate completed" only when no delete
  fails.
\<close>

theorem activate_outcome:
  "caches (snd (on_activate h w)) =
     filter (\<lambda>e. \<not> (superseded (fst e) \<and> \<not> delete_rejects h (fst e))) (caches w) \<and>
   console (snd (on_activate h w)) =
     console w @ [(LOG, ''Service Worker: Activating...'')] @
     map (\<lambda>n. (LOG, ''Service Worker: Deleting old cache '' @ n))
       (filter superseded (map fst (caches w))) @
     (if delete_failed h w then [] else [(LOG, ''Service Worker: Activate completed'')]) \<and>
   claimed (snd (on_activate h w)) = (claimed w \<or> \<not> delete_failed h w) \<and>
   (fst (on_activate h w) = Fulfilled ()) = (\<not> delete_failed h w)"
proof -
  let ?w1 = "console_log w LOG ''Service Worker: Activating...''"
  let ?ns = "map fst (caches w)"
  obtain ps w2 where d: "delete_old h ?ns ?w1 = (ps, w2)"
    by (cases "delete_old h ?ns ?w1")
  have c1: "caches ?w1 = caches w" by (simp add: console_log_def)
  have caches2: "caches w2 =
      filter (\<lambda>e. \<not> (superseded (fst e) \<and> \<not> delete_rejects h (fst e))) (caches w)"
  proof -
    have "filter (\<lambda>e. \<not> (fst e \<in> set ?ns \<and> superseded (fst e) \<and> \<not> delete_rejects h (fst e)))
          (caches w) =
        filter (\<lambda>e. \<not> (superseded (fst e) \<and> \<not> delete_rejects h (fst e))) (caches w)"
      by (rule filter_cong, simp, force)
    then show ?thesis using delete_old_caches[of h ?ns ?w1] d c1 by simp
  qed
  have console2: "console w2 = console w @ [(LOG, ''Service Worker: Activating...'')] @
      map (\<lambda>n. (LOG, ''Service Worker: Deleting old cache '' @ n)) (filter superseded ?ns)"
    using delete_old_console[of h ?ns ?w1] d by (simp add: console_log_def)
  have claimed2: "claimed w2 = claimed w"
    using delete_old_claimed[of h ?ns ?w1] d by (simp add: console_log_def)
  have all: "(\<exists>us. promise_all ps = Fulfilled us) = (\<not> delete_failed h w)"
    using delete_old_all[of h ?ns ?w1] d by (simp add: delete_failed_def)
  show ?thesis
  proof (cases "promise_all ps")
    case (Fulfilled us)
    then have "\<not> delete_failed h w" using all by auto
    then show ?thesis
      using Fulfilled d c1 caches2 console2 claimed2
      by (simp add: on_activate_def Let_def console_log_def)
  next
    case (Rejected e)
    then have "delete_failed h w" using all by auto
    then show ?thesis
      using Rejected d c1 caches2 console2 claimed2
      by (simp add: on_activate_def Let_def console_log_def)
  qed
qed

theorem activate_outcome_witness:
  "claimed (snd (on_activate (example_host index_unreachable never)
      (world_with superseded_caches))) \<and>
   fst (on_activate (example_host index_unreachable never) (world_with superseded_caches)) =
      Fulfilled () \<and>
   map fst (caches (snd (on_activate (example_host index_unreachable never)
      (world_with superseded_caches)))) = [''static-v1''] \<and>
   delete_failed (example_host index_unreachable (only ''static-v0''))
      (world_with superseded_caches) \<and>
   claimed (snd (on_activate (example_host index_unreachable (only ''static-v0''))
      (world_with superseded_caches))) = False"
  using activate_outcome[of "example_host index_unreachable never" "world_with superseded_caches"]
    activate_outcome[of "example_host index_unreachable (only ''static-v0'')"
      "world_with superseded_caches"]
  by (simp add: delete_failed_def superseded_def example_host_def never_def only_def
      world_with_def superseded_caches_def STATIC_CACHE_def DYNAMIC_CACHE_def)

text \<open>
  C3 as stated fails: with the caches \<open>static-v0\<close>, \<open>static-v1\<close> and \<open>dynamic-v0\<close>,
  where the delete of \<open>static-v0\<close> rejects, the handler still deletes \<open>dynamic-v0\<close>,
  but its promise is rejected, \<open>clients.claim()\<close> is not called, and the console holds
  no line about the failure.
\<close>

theorem activate_delete_failure_counterexample:
  "delete_rejects (example_host index_unreachable (only ''static-v0'')) ''static-v0'' \<and>
   fst (on_activate (example_host index_unreachable (only ''static-v0''))
         (world_with superseded_caches)) = Rejected ''delete'' \<and>
   claimed (snd (on_activate (example_host index_unreachable (only ''static-v0''))
         (world_with superseded_caches))) = False \<and>
   console (snd (on_activate (example_host index_unreachable (only ''static-v0''))
         (world_with superseded_caches))) =
     [(LOG, ''Service Worker: Activating...''),
      (LOG, ''Service Worker: Deleting old cache static-v0''),
      (LOG, ''Service Worker: Deleting old cache dynamic-v0'')] \<and>
   map fst (caches (snd (on_activate (example_host index_unreachable (only ''static-v0''))
         (world_with superseded_caches)))) = [''static-v0'', ''static-v1'']"
  by (simp add: on_activate_def console_log_def caches_delete_def Let_def
      example_host_def only_def world_with_def superseded_caches_def
      STATIC_CACHE_def DYNAMIC_CACHE_def)

section \<open>The update check\<close>

subsection \<open>One turn of the loop, and the loop\<close>

lemma update_asset_acc:
  "snd (update_asset h a (w, acc)) =
     acc @ (if refreshes h (lookup (caches w) STATIC_CACHE a) a then [a] else [])"
  by (auto simp: update_asset_def fetch_def refreshes_def split: promise.splits option.splits)

lemma update_asset_lookup:
  assumes "STATIC_CACHE \<in> set (map fst (caches w))"
  shows "lookup (caches (fst (update_asset h a (w, acc)))) n k =
     (if n = STATIC_CACHE \<and> k = a \<and> refreshes h (lookup (caches w) STATIC_CACHE a) a
      then net_response h a else lookup (caches w) n k)"
  using assms
  by (auto simp: update_asset_def fetch_def refreshes_def net_response_def console_log_def
      lookup_cache_put split: promise.splits option.splits)

lemma update_asset_names:
  "map fst (caches (fst (update_asset h a (w, acc)))) = map fst (caches w)"
  by (auto simp: update_asset_def fetch_def console_log_def names_cache_put
      split: promise.splits option.splits)

lemma update_asset_posts:
  "client_posts (fst (update_asset h a (w, acc))) = client_posts w"
  by (auto simp: update_asset_def fetch_def console_log_def
      split: promise.splits option.splits)

text \<open>
  The assets are distinct, so each turn reads the entry the world had before the loop.
\<close>

lemma update_loop_acc:
  assumes "distinct xs" and "STATIC_CACHE \<in> set (map fst (caches w))"
  shows "snd (update_loop h xs (w, acc)) =
     acc @ filter (\<lambda>a. refreshes h (lookup (caches w) STATIC_CACHE a) a) xs"
  using assms
proof (induction xs arbitrary: w acc)
  case Nil
  then show ?case by simp
next
  case (Cons a xs)
  obtain w1 acc1 where s1: "update_asset h a (w, acc) = (w1, acc1)"
    by (cases "update_asset h a (w, acc)")
  have acc1: "acc1 = acc @ (if refreshes h (lookup (caches w) STATIC_CACHE a) a then [a] else [])"
    using update_asset_acc[of h a w acc] s1 by simp
  have names: "STATIC_CACHE \<in> set (map fst (caches w1))"
    using update_asset_names[of h a w acc] s1 Cons.prems(2) by simp
  have same: "lookup (caches w1) STATIC_CACHE x = lookup (caches w) STATIC_CACHE x"
    if "x \<in> set xs" for x
    using update_asset_lookup[OF Cons.prems(2), of h a acc STATIC_CACHE x] s1 that Cons.prems(1)
    by auto
  have "snd (update_loop h xs (w1, acc1)) =
      acc1 @ filter (\<lambda>a. refreshes h (lookup (caches w1) STATIC_CACHE a) a) xs"
    using Cons.IH[OF _ names] Cons.prems(1) by simp
  also have "filter (\<lambda>a. refreshes h (lookup (caches w1) STATIC_CACHE a) a) xs =
      filter (\<lambda>a. refreshes h (lookup (caches w) STATIC_CACHE a) a) xs"
    by (rule filter_cong) (simp_all add: same)
  finally show ?case using s1 acc1 by simp
qed

lemma update_loop_lookup:
  assumes "distinct xs" and "STATIC_CACHE \<in> set (map fst (caches w))"
  shows "lookup (caches (fst (update_loop h xs (w, acc)))) n k =
     (if n = STATIC_CACHE \<and> k \<in> set xs \<and> refreshes h (lookup (caches w) STATIC_CACHE k) k
      then net_response h k else lookup (caches w) n k)"
  using assms
proof (induction xs arbitrary: w acc)
  case Nil
  then show ?case by simp
next
  case (Cons a xs)
  obtain w1 acc1 where s1: "update_asset h a (w, acc) = (w1, acc1)"
    by (cases "update_asset h a (w, acc)")
  have names: "STATIC_CACHE \<in> set (map fst (caches w1))"
    using update_asset_names[of h a w acc] s1 Cons.prems(2) by simp
  have step: "lookup (caches w1) m j =
     (if m = STATIC_CACHE \<and> j = a \<and> refreshes h (lookup (caches w) STATIC_CACHE a) a
      then net_response h a else lookup (caches w) m j)" for m j
    using update_asset_lookup[OF Cons.prems(2), of h a acc m j] s1 by simp
  have ih: "lookup (caches (fst (update_loop h xs (w1, acc1)))) n k =
     (if n = STATIC_CACHE \<and> k \<in> set xs \<and> refreshes h (lookup (caches w1) STATIC_CACHE k) k
      then net_response h k else lookup (caches w1) n k)"
    using Cons.IH[OF _ names] Cons.prems(1) by simp
  show ?case
    using ih step Cons.prems(1) s1 by auto
qed

lemma update_loop_posts:
  "client_posts (fst (update_loop h xs (w, acc))) = client_posts w"
proof (induction xs arbitrary: w acc)
  case Nil
  then show ?case by simp
next
  case (Cons a xs)
  obtain w1 acc1 where s1: "update_asset h a (w, acc) = (w1, acc1)"
    by (cases "update_asset h a (w, acc)")
  then show ?case using Cons.IH[of w1 acc1] update_asset_posts[of h a w acc] by simp
qed

lemma distinct_STATIC_ASSETS: "distinct STATIC_ASSETS"
  by (simp add: STATIC_ASSETS_def)

lemma manifest_parts_disjoint: "set EXTERNAL_RESOURCES \<inter> set STATIC_ASSETS = {}"
  by (simp add: EXTERNAL_RESOURCES_def STATIC_ASSETS_def)

subsection \<open>The whole check\<close>

lemma updatedAssets_filter:
  "updatedAssets h w =
     filter (\<lambda>a. refreshes h (lookup (caches w) STATIC_CACHE a) a) STATIC_ASSETS"
  unfolding updatedAssets_def
  using update_loop_acc[OF distinct_STATIC_ASSETS,
      of "w\<lparr>caches := caches_open (caches w) STATIC_CACHE\<rparr>" h "[]"]
  by (simp add: names_caches_open lookup_caches_open)

lemma checkForUpdates_caches:
  "caches (checkForUpdates h w) =
     caches (fst (update_loop h STATIC_ASSETS
       (w\<lparr>caches := caches_open (caches w) STATIC_CACHE\<rparr>, [])))"
  by (simp add: checkForUpdates_def case_prod_beta console_log_def)

lemma checkForUpdates_lookup:
  "lookup (caches (checkForUpdates h w)) n k =
     (if n = STATIC_CACHE \<and> k \<in> set STATIC_ASSETS \<and>
         refreshes h (lookup (caches w) STATIC_CACHE k) k
      then net_response h k else lookup (caches w) n k)"
  unfolding checkForUpdates_caches
  using update_loop_lookup[OF distinct_STATIC_ASSETS,
      of "w\<lparr>caches := caches_open (caches w) STATIC_CACHE\<rparr>" h "[]" n k]
  by (simp add: names_caches_open lookup_caches_open)

lemma checkForUpdates_posts:
  "client_posts (checkForUpdates h w) = client_posts w @
     (if updatedAssets h w = [] then []
      else map (\<lambda>client. (client, ASSETS_UPDATED (updatedAssets h w))) (matchAll h))"
  using update_loop_posts[of h STATIC_ASSETS "w\<lparr>caches := caches_open (caches w) STATIC_CACHE\<rparr>" "[]"]
  by (simp add: checkForUpdates_def updatedAssets_def case_prod_beta console_log_def)

lemma updatedAssets_overwritten: "updatedAssets h w = overwritten h w"
  unfolding updatedAssets_filter overwritten_def
  by (rule filter_cong) (auto simp: checkForUpdates_lookup refreshes_def net_response_def
      split: promise.splits option.splits)

lemma spec_equivalent_etag: "spec_equivalent a b = (etag a = etag b)"
  by (auto simp: spec_equivalent_def split: option.splits)

subsection \<open>The broadcast\<close>

text \<open>
  C7. One update check posts to each client of \<open>clients.matchAll()\<close> one message
  \<open>ASSETS_UPDATED\<close> when at least one asset's entry was overwritten, and posts
  nothing otherwise; the message is the same for every client and lists exactly the
  assets whose entry was overwritten in this check, in the order of \<open>STATIC_ASSETS\<close>.
\<close>

theorem broadcast_once_per_pass:
  "client_posts (checkForUpdates h w) = client_posts w @
     (if overwritten h w = [] then []
      else map (\<lambda>client. (client, ASSETS_UPDATED (overwritten h w))) (matchAll h))"
  using checkForUpdates_posts[of h w] by (simp add: updatedAssets_overwritten)

theorem broadcast_once_per_pass_witness:
  "overwritten (example_host index_changed never) (world_with precached) = [''/index.html''] \<and>
   client_posts (checkForUpdates (example_host index_changed never) (world_with precached)) =
     [(1, ASSETS_UPDATED [''/index.html'']), (2, ASSETS_UPDATED [''/index.html''])]"
proof -
  have o: "overwritten (example_host index_changed never) (world_with precached) =
      [''/index.html'']"
    by (simp add: updatedAssets_overwritten[symmetric] updatedAssets_filter refreshes_def
        lookup_def example_host_def index_changed_def never_def world_with_def precached_def
        tagged_def STATIC_CACHE_def DYNAMIC_CACHE_def STATIC_ASSETS_def EXTERNAL_RESOURCES_def)
  show ?thesis
    using o broadcast_once_per_pass[of "example_host index_changed never" "world_with precached"]
    by (simp add: example_host_def world_with_def)
qed

subsection \<open>The freshness comparison\<close>

text \<open>
  C2, as the check has it. The test of line 228 is the specification's comparator:
  two copies are equivalent iff their tokens are equal or both absent. The check visits
  the assets of \<open>STATIC_ASSETS\<close> only. For every asset of the manifest (both lists)
  whose fetch and put succeed, the check overwrites the cached entry with the network
  copy and records the asset as updated exactly when the asset is in \<open>STATIC_ASSETS\<close>
  and there is no cached copy or the two copies are not equivalent; otherwise the entry
  stays as it was and the asset is not recorded. So an asset of \<open>STATIC_ASSETS\<close> is
  refreshed when exactly one copy lacks a token and is not when both lack one, and an
  entry of \<open>EXTERNAL_RESOURCES\<close> is never refreshed.
\<close>

theorem refresh_rule:
  assumes "a \<in> set (STATIC_ASSETS @ EXTERNAL_RESOURCES)" and "net h a = Fulfilled r"
    and "\<not> put_rejects h STATIC_CACHE a"
  shows "(a \<in> set (updatedAssets h w)) =
           (a \<in> set STATIC_ASSETS \<and>
            (case lookup (caches w) STATIC_CACHE a of
               None \<Rightarrow> True
             | Some c \<Rightarrow> \<not> spec_equivalent r c)) \<and>
         lookup (caches (checkForUpdates h w)) STATIC_CACHE a =
           (if a \<in> set (updatedAssets h w) then Some r
            else lookup (caches w) STATIC_CACHE a)"
proof (cases "a \<in> set STATIC_ASSETS")
  case True
  then show ?thesis
    using assms(2,3)
    by (auto simp: updatedAssets_filter checkForUpdates_lookup refreshes_def net_response_def
        spec_equivalent_etag split: option.splits)
next
  case False
  then show ?thesis
    by (simp add: updatedAssets_filter checkForUpdates_lookup)
qed

theorem refresh_rule_witness:
  "''/'' \<in> set (updatedAssets (example_host root_untagged never)
      (world_with (root_cached (tagged ''v1'')))) \<and>
   lookup (caches (checkForUpdates (example_host root_untagged never)
      (world_with (root_cached (tagged ''v1''))))) STATIC_CACHE ''/'' = Some (untagged ''new'') \<and>
   url font_request \<in> set EXTERNAL_RESOURCES \<and>
   lookup (caches (world_with [])) STATIC_CACHE (url font_request) = None \<and>
   url font_request \<notin> set (updatedAssets (example_host (serves (untagged ''new'')) never)
      (world_with [])) \<and>
   lookup (caches (checkForUpdates (example_host (serves (untagged ''new'')) never)
      (world_with []))) STATIC_CACHE (url font_request) = None"
proof -
  let ?h = "example_host root_untagged never"
  let ?w = "world_with (root_cached (tagged ''v1''))"
  let ?g = "example_host (serves (untagged ''new'')) never"
  have a: "''/'' \<in> set (STATIC_ASSETS @ EXTERNAL_RESOURCES)" by (simp add: STATIC_ASSETS_def)
  have a': "''/'' \<in> set STATIC_ASSETS" by (simp add: STATIC_ASSETS_def)
  have b: "net ?h ''/'' = Fulfilled (untagged ''new'')"
    by (simp add: example_host_def root_untagged_def)
  have c: "\<not> put_rejects ?h STATIC_CACHE ''/''" by (simp add: example_host_def)
  have d: "lookup (caches ?w) STATIC_CACHE ''/'' = Some (tagged ''v1'')"
    by (simp add: lookup_def world_with_def root_cached_def)
  have e: "\<not> spec_equivalent (untagged ''new'') (tagged ''v1'')"
    by (simp add: spec_equivalent_def untagged_def tagged_def)
  have first: "''/'' \<in> set (updatedAssets ?h ?w) \<and>
      lookup (caches (checkForUpdates ?h ?w)) STATIC_CACHE ''/'' = Some (untagged ''new'')"
    using refresh_rule[OF a b c, of ?w] a' d e by simp
  have f: "url font_request \<in> set EXTERNAL_RESOURCES"
    by (simp add: font_request_def EXTERNAL_RESOURCES_def)
  have f': "url font_request \<in> set (STATIC_ASSETS @ EXTERNAL_RESOURCES)"
    using f by simp
  have g: "url font_request \<notin> set STATIC_ASSETS"
    by (simp add: font_request_def STATIC_ASSETS_def)
  have i: "net ?g (url font_request) = Fulfilled (untagged ''new'')"
    by (simp add: example_host_def serves_def)
  have j: "\<not> put_rejects ?g STATIC_CACHE (url font_request)" by (simp add: example_host_def)
  have k: "lookup (caches (world_with [])) STATIC_CACHE (url font_request) = None"
    by (simp add: lookup_def world_with_def)
  have second: "url font_request \<notin> set (updatedAssets ?g (world_with [])) \<and>
      lookup (caches (checkForUpdates ?g (world_with []))) STATIC_CACHE (url font_request) = None"
    using refresh_rule[OF f' i j, of "world_with []"] g k by simp
  show ?thesis
    using first f k second by blast
qed

text \<open>
  C2 as stated fails where both copies lack a token: with \<open>/\<close> cached without an
  \<open>etag\<close> and fetched without one (and with another body), the check leaves the old
  entry, does not record \<open>/\<close> as updated and posts nothing.
\<close>

theorem both_untagged_counterexample:
  "''/'' \<in> set STATIC_ASSETS \<and>
   lookup (caches (world_with (root_cached (untagged ''old'')))) STATIC_CACHE ''/'' =
     Some (untagged ''old'') \<and>
   etag (untagged ''old'') = None \<and>
   net (example_host root_untagged never) ''/'' = Fulfilled (untagged ''new'') \<and>
   etag (untagged ''new'') = None \<and>
   lookup (caches (checkForUpdates (example_host root_untagged never)
      (world_with (root_cached (untagged ''old''))))) STATIC_CACHE ''/'' =
     Some (untagged ''old'') \<and>
   ''/'' \<notin> set (updatedAssets (example_host root_untagged never)
      (world_with (root_cached (untagged ''old'')))) \<and>
   client_posts (checkForUpdates (example_host root_untagged never)
      (world_with (root_cached (untagged ''old'')))) = []"
  by (simp add: checkForUpdates_def updatedAssets_def update_asset_def fetch_def console_log_def
      caches_open_def cache_put_def lookup_def example_host_def root_untagged_def never_def
      world_with_def root_cached_def untagged_def STATIC_CACHE_def STATIC_ASSETS_def)

subsection \<open>What the check leaves alone\<close>

text \<open>
  C10. An update check changes no entry outside the static cache and no entry of the
  static cache whose key is not in \<open>STATIC_ASSETS\<close>. The assets it records are among
  \<open>STATIC_ASSETS\<close>; no entry of \<open>EXTERNAL_RESOURCES\<close> is recorded or changed; the
  broadcast lists the recorded assets only. The check reads no other entry: two
  worlds that agree on the static cache's entries for \<open>STATIC_ASSETS\<close> give the same
  list of updated assets.
\<close>

theorem update_check_frame:
  "(n \<noteq> STATIC_CACHE \<or> k \<notin> set STATIC_ASSETS \<longrightarrow>
      lookup (caches (checkForUpdates h w)) n k = lookup (caches w) n k) \<and>
   set (updatedAssets h w) \<subseteq> set STATIC_ASSETS \<and>
   (\<forall>e \<in> set EXTERNAL_RESOURCES.
      e \<notin> set (updatedAssets h w) \<and>
      lookup (caches (checkForUpdates h w)) STATIC_CACHE e = lookup (caches w) STATIC_CACHE e) \<and>
   client_posts (checkForUpdates h w) = client_posts w @
     (if updatedAssets h w = [] then []
      else map (\<lambda>client. (client, ASSETS_UPDATED (updatedAssets h w))) (matchAll h)) \<and>
   ((\<forall>a \<in> set STATIC_ASSETS.
       lookup (caches w') STATIC_CACHE a = lookup (caches w) STATIC_CACHE a) \<longrightarrow>
    updatedAssets h w' = updatedAssets h w)"
proof -
  have frame: "n \<noteq> STATIC_CACHE \<or> k \<notin> set STATIC_ASSETS \<longrightarrow>
      lookup (caches (checkForUpdates h w)) n k = lookup (caches w) n k"
    by (auto simp: checkForUpdates_lookup)
  have sub: "set (updatedAssets h w) \<subseteq> set STATIC_ASSETS"
    by (simp add: updatedAssets_filter)
  have ext: "\<forall>e \<in> set EXTERNAL_RESOURCES.
      e \<notin> set (updatedAssets h w) \<and>
      lookup (caches (checkForUpdates h w)) STATIC_CACHE e = lookup (caches w) STATIC_CACHE e"
    using manifest_parts_disjoint by (auto simp: updatedAssets_filter checkForUpdates_lookup)
  have reads: "(\<forall>a \<in> set STATIC_ASSETS.
       lookup (caches w') STATIC_CACHE a = lookup (caches w) STATIC_CACHE a) \<longrightarrow>
    updatedAssets h w' = updatedAssets h w"
    unfolding updatedAssets_filter by (auto intro: filter_cong)
  show ?thesis using frame sub ext reads checkForUpdates_posts[of h w] by blast
qed

theorem update_check_frame_witness:
  "updatedAssets (example_host index_changed never) (world_with precached) = [''/index.html''] \<and>
   lookup (caches (checkForUpdates (example_host index_changed never) (world_with precached)))
     DYNAMIC_CACHE ''https://logogen.example/app.js'' = Some (tagged ''a1'') \<and>
   lookup (caches (checkForUpdates (example_host index_changed never) (world_with precached)))
     STATIC_CACHE
     ''https://cdnjs.cloudflare.com/ajax/libs/font-awesome/6.4.0/webfonts/fa-solid-900.woff2'' =
     Some (tagged ''v1'')"
proof -
  let ?h = "example_host index_changed never"
  let ?w = "world_with precached"
  let ?font = "''https://cdnjs.cloudflare.com/ajax/libs/font-awesome/6.4.0/webfonts/fa-solid-900.woff2''"
  have u: "updatedAssets ?h ?w = [''/index.html'']"
    by (simp add: updatedAssets_filter refreshes_def lookup_def example_host_def
        index_changed_def never_def world_with_def precached_def tagged_def
        STATIC_CACHE_def DYNAMIC_CACHE_def STATIC_ASSETS_def EXTERNAL_RESOURCES_def)
  have d: "lookup (caches ?w) DYNAMIC_CACHE ''https://logogen.example/app.js'' = Some (tagged ''a1'')"
    by (simp add: lookup_def world_with_def precached_def STATIC_CACHE_def DYNAMIC_CACHE_def)
  have f: "lookup (caches ?w) STATIC_CACHE ?font = Some (tagged ''v1'')"
    by (simp add: lookup_def world_with_def precached_def STATIC_CACHE_def
        STATIC_ASSETS_def EXTERNAL_RESOURCES_def)
  have e: "?font \<in> set EXTERNAL_RESOURCES"
    by (simp add: EXTERNAL_RESOURCES_def)
  have s: "DYNAMIC_CACHE \<noteq> STATIC_CACHE"
    by (simp add: STATIC_CACHE_def DYNAMIC_CACHE_def)
  show ?thesis
    using u d f e s
      update_check_frame[of DYNAMIC_CACHE "''https://logogen.example/app.js''" ?h ?w ?w]
    by auto
qed

end
